theory Spec2Isabelle
  imports Main
begin

section \<open>Python values\<close>

text \<open>
  The values that travel through \<^verbatim>\<open>cachetclient/v1/incidents.py\<close>: keyword
  arguments, payload entries and the raw fields of a resource. Python is dynamically
  typed, so one datatype holds them all: \<^verbatim>\<open>None\<close>, \<^verbatim>\<open>bool\<close>, \<^verbatim>\<open>int\<close>
  (unbounded), \<^verbatim>\<open>str\<close>, \<^verbatim>\<open>list\<close> and \<^verbatim>\<open>datetime\<close> (kept opaque, as its
  ISO-8601 text). Floats and nested objects are not modelled: no statement below says
  what the code does with a stored float (Python has \<^verbatim>\<open>1.0 == 1\<close>).
\<close>

datatype pyval =
    PNone
  | PBool bool
  | PInt int
  | PStr string
  | PList "pyval list"
  | PDatetime string

text \<open>
  Python's \<^verbatim>\<open>==\<close>. \<^verbatim>\<open>bool\<close> is a subclass of \<^verbatim>\<open>int\<close>, so \<^verbatim>\<open>True == 1\<close>
  and \<^verbatim>\<open>False == 0\<close> hold; values of unrelated types are unequal, in particular
  \<^verbatim>\<open>"1" == 1\<close> and \<^verbatim>\<open>None == 1\<close> are \<^verbatim>\<open>False\<close>.
\<close>

fun py_eq :: "pyval \<Rightarrow> pyval \<Rightarrow> bool"
  and py_eq_list :: "pyval list \<Rightarrow> pyval list \<Rightarrow> bool" where
  "py_eq PNone PNone = True"
| "py_eq (PBool a) (PBool b) = (a = b)"
| "py_eq (PBool a) (PInt j) = ((if a then 1 else 0) = j)"
| "py_eq (PInt i) (PBool b) = (i = (if b then 1 else 0))"
| "py_eq (PInt i) (PInt j) = (i = j)"
| "py_eq (PStr s) (PStr t) = (s = t)"
| "py_eq (PList xs) (PList ys) = py_eq_list xs ys"
| "py_eq (PDatetime s) (PDatetime t) = (s = t)"
| "py_eq _ _ = False"
| "py_eq_list [] [] = True"
| "py_eq_list (x # xs) (y # ys) = (py_eq x y \<and> py_eq_list xs ys)"
| "py_eq_list _ _ = False"

text \<open>Python's truth value of an object, as \<^verbatim>\<open>1 if visible else 0\<close> tests it.\<close>

fun py_truth :: "pyval \<Rightarrow> bool" where
  "py_truth PNone = False"
| "py_truth (PBool b) = b"
| "py_truth (PInt i) = (i \<noteq> 0)"
| "py_truth (PStr s) = (s \<noteq> [])"
| "py_truth (PList xs) = (xs \<noteq> [])"
| "py_truth (PDatetime s) = True"

text \<open>\<^verbatim>\<open>isinstance(v, bool)\<close>: an \<^verbatim>\<open>int\<close> is not a \<^verbatim>\<open>bool\<close>.\<close>

fun isinstance_bool :: "pyval \<Rightarrow> bool" where
  "isinstance_bool (PBool b) = True"
| "isinstance_bool _ = False"

type_synonym pydict = "string \<rightharpoonup> pyval"

section \<open>The HTTP client\<close>

text \<open>
  \<^verbatim>\<open>HttpClient\<close> is an external collaborator. Its model is a black box that answers
  a request (\<open>respond\<close>, the remote service in its current state) and a log of the
  requests issued so far (\<open>sent\<close>, oldest first): a network call is exactly an
  entry appended to the log.
\<close>

datatype http_verb = GET | POST | PUT | DELETE

text \<open>\<open>Collection p\<close> is the URL \<^verbatim>\<open>{path}\<close>, \<open>Member p i\<close> is \<^verbatim>\<open>{path}/{id}\<close>.\<close>

datatype url = Collection string | Member string int

record request =
  verb :: http_verb
  target :: url
  params :: pydict
  payload :: pydict

record pagination =
  total :: int
  per_page :: int
  current_page :: int
  total_pages :: int

text \<open>
  The decoded JSON body: an object under \<^verbatim>\<open>data\<close>, a pagination envelope
  (\<^verbatim>\<open>data\<close> rows and \<^verbatim>\<open>meta.pagination\<close>), or anything else (an error body).
\<close>

datatype body = DataObject pydict | DataPage "pydict list" pagination | OtherBody pyval

record response =
  status_code :: nat
  json :: body

record HttpClient =
  respond :: "request \<Rightarrow> response"
  sent :: "request list"

definition http_request :: "request \<Rightarrow> HttpClient \<Rightarrow> response \<times> HttpClient" where
  \<comment> \<open>Modelled from the spec: the verbs of \<^verbatim>\<open>HttpClient\<close> (\<^verbatim>\<open>cachetclient/httpclient.py\<close>,
      not among the sources), which execute one request and return status and body.\<close>
  "http_request rq c = (respond c rq, c\<lparr>sent := sent c @ [rq]\<rparr>)"

section \<open>Errors\<close>

text \<open>
  Exceptions as values. \<open>ValueError\<close> is Python's builtin, the one
  \<^verbatim>\<open>IncidentManager.update\<close> raises; \<open>ValidationError\<close>, \<open>NotFoundError\<close> and
  \<open>ApiError\<close> are the classes of the specification's taxonomy; \<open>KeyError\<close> is
  what indexing a response body without the expected key raises.
\<close>

datatype error =
    ValueError string
  | ValidationError
  | NotFoundError
  | ApiError nat body
  | KeyError string

section \<open>Incident\<close>

text \<open>
  A resource wraps the mapping \<^verbatim>\<open>_data\<close> of raw field values it was built from.
\<close>

record Incident =
  data :: pydict

definition Resource_get :: "Incident \<Rightarrow> string \<Rightarrow> pyval" where
  \<comment> \<open>Modelled from the spec: \<^verbatim>\<open>Resource.get\<close> of \<^verbatim>\<open>cachetclient/base.py\<close>, which is
      not among the sources. It reads the stored raw value of a field from the
      resource's mapping; a field that is absent reads as \<^verbatim>\<open>None\<close>.\<close>
  "Resource_get self key = (case data self key of None \<Rightarrow> PNone | Some v \<Rightarrow> v)"

definition Incident_id :: "Incident \<Rightarrow> pyval" where
  "Incident_id self = Resource_get self ''id''"

definition Incident_component_id :: "Incident \<Rightarrow> pyval" where
  "Incident_component_id self = Resource_get self ''component_id''"

definition Incident_name :: "Incident \<Rightarrow> pyval" where
  "Incident_name self = Resource_get self ''name''"

definition Incident_message :: "Incident \<Rightarrow> pyval" where
  "Incident_message self = Resource_get self ''message''"

definition Incident_notify :: "Incident \<Rightarrow> pyval" where
  "Incident_notify self = Resource_get self ''notify''"

definition Incident_status :: "Incident \<Rightarrow> pyval" where
  "Incident_status self = Resource_get self ''status''"

definition Incident_human_status :: "Incident \<Rightarrow> pyval" where
  "Incident_human_status self = Resource_get self ''human_status''"

definition Incident_visible :: "Incident \<Rightarrow> pyval" where
  "Incident_visible self = PBool (py_eq (Resource_get self ''visible'') (PInt 1))"

text \<open>
  The property setters assign one key of \<^verbatim>\<open>self._data\<close>. They are given the HTTP
  client as every operation is, and hand it back as they found it.
\<close>

definition Incident_set_component_id :: "pyval \<Rightarrow> Incident \<Rightarrow> HttpClient \<Rightarrow> Incident \<times> HttpClient" where
  "Incident_set_component_id v self c = (self\<lparr>data := (data self)(''component_id'' \<mapsto> v)\<rparr>, c)"

definition Incident_set_name :: "pyval \<Rightarrow> Incident \<Rightarrow> HttpClient \<Rightarrow> Incident \<times> HttpClient" where
  "Incident_set_name v self c = (self\<lparr>data := (data self)(''name'' \<mapsto> v)\<rparr>, c)"

definition Incident_set_message :: "pyval \<Rightarrow> Incident \<Rightarrow> HttpClient \<Rightarrow> Incident \<times> HttpClient" where
  "Incident_set_message v self c = (self\<lparr>data := (data self)(''message'' \<mapsto> v)\<rparr>, c)"

definition Incident_set_notify :: "pyval \<Rightarrow> Incident \<Rightarrow> HttpClient \<Rightarrow> Incident \<times> HttpClient" where
  "Incident_set_notify v self c = (self\<lparr>data := (data self)(''notify'' \<mapsto> v)\<rparr>, c)"

definition Incident_set_status :: "pyval \<Rightarrow> Incident \<Rightarrow> HttpClient \<Rightarrow> Incident \<times> HttpClient" where
  "Incident_set_status v self c = (self\<lparr>data := (data self)(''status'' \<mapsto> v)\<rparr>, c)"

definition Incident_set_visible :: "pyval \<Rightarrow> Incident \<Rightarrow> HttpClient \<Rightarrow> Incident \<times> HttpClient" where
  "Incident_set_visible v self c = (self\<lparr>data := (data self)(''visible'' \<mapsto> v)\<rparr>, c)"

section \<open>Manager: the generic operations\<close>

text \<open>
  \<^verbatim>\<open>IncidentManager\<close> inherits \<^verbatim>\<open>_create\<close>, \<^verbatim>\<open>_update\<close>, \<^verbatim>\<open>_get\<close>,
  \<^verbatim>\<open>_delete\<close>, \<^verbatim>\<open>_count\<close>, \<^verbatim>\<open>_list_paginated\<close> and \<^verbatim>\<open>_build_data_dict\<close>
  from \<^verbatim>\<open>cachetclient.base.Manager\<close>. That module is not among the sources; the
  definitions of this section follow the specification's description of the generic
  manager and of its errors.
\<close>

definition non_null :: "pydict \<Rightarrow> pydict" where
  \<comment> \<open>Modelled from the spec: the "non-null fields only" of a payload (the filtering
      code of \<^verbatim>\<open>cachetclient/base.py\<close> is missing): every key whose value is
      \<^verbatim>\<open>None\<close> is dropped, every other entry is kept.\<close>
  "non_null d = (\<lambda>k. case d k of None \<Rightarrow> None | Some v \<Rightarrow> (if v = PNone then None else Some v))"

definition raise_for_status :: "response \<Rightarrow> error + response" where
  \<comment> \<open>Modelled from the spec: the error taxonomy (the status check of
      \<^verbatim>\<open>cachetclient/base.py\<close> and \<^verbatim>\<open>cachetclient/httpclient.py\<close> is missing): 404 is
      \<open>NotFoundError\<close>, any other non-2xx response is \<open>ApiError\<close> with status and body.\<close>
  "raise_for_status r =
     (if 200 \<le> status_code r \<and> status_code r < 300 then Inr r
      else if status_code r = 404 then Inl NotFoundError
      else Inl (ApiError (status_code r) (json r)))"

definition resource_from :: "response \<Rightarrow> error + Incident" where
  \<comment> \<open>Modelled from the spec: "a Resource built from the response body's data object"
      (\<^verbatim>\<open>resource_class(self, response.json()['data'])\<close>, missing with base.py).\<close>
  "resource_from r =
     (case json r of DataObject d \<Rightarrow> Inr \<lparr>data = d\<rparr> | _ \<Rightarrow> Inl (KeyError ''data''))"

definition Manager_build_data_dict :: "pydict \<Rightarrow> pydict" where
  \<comment> \<open>Modelled from the spec: \<^verbatim>\<open>Manager._build_data_dict(**kwargs)\<close> (missing with
      base.py): the partial payload of an update, which "omits None fields".\<close>
  "Manager_build_data_dict kwargs = non_null kwargs"

definition Manager_create :: "string \<Rightarrow> pydict \<Rightarrow> HttpClient \<Rightarrow> (error + Incident) \<times> HttpClient" where
  \<comment> \<open>Modelled from the spec: \<^verbatim>\<open>Manager._create(path, data)\<close> (missing with base.py):
      "POST to resource path with non-null fields only; returns a Resource built from
      the response body's data object".\<close>
  "Manager_create p d c =
     (case http_request \<lparr>verb = POST, target = Collection p, params = Map.empty,
                         payload = non_null d\<rparr> c of
        (r, c') \<Rightarrow>
          (case raise_for_status r of
             Inl e \<Rightarrow> (Inl e, c')
           | Inr r' \<Rightarrow> (resource_from r', c')))"

definition Manager_update :: "string \<Rightarrow> int \<Rightarrow> pydict \<Rightarrow> HttpClient \<Rightarrow> (error + Incident) \<times> HttpClient" where
  \<comment> \<open>Modelled from the spec: \<^verbatim>\<open>Manager._update(path, resource_id, data)\<close> (missing
      with base.py): PUT of the payload it is handed to \<^verbatim>\<open>{path}/{id}\<close>.\<close>
  "Manager_update p i d c =
     (case http_request \<lparr>verb = PUT, target = Member p i, params = Map.empty,
                         payload = d\<rparr> c of
        (r, c') \<Rightarrow>
          (case raise_for_status r of
             Inl e \<Rightarrow> (Inl e, c')
           | Inr r' \<Rightarrow> (resource_from r', c')))"

definition Manager_get :: "string \<Rightarrow> int \<Rightarrow> HttpClient \<Rightarrow> (error + Incident) \<times> HttpClient" where
  \<comment> \<open>Modelled from the spec: \<^verbatim>\<open>Manager._get(path, resource_id)\<close> (missing with
      base.py): "GET {path}/{id}; returns Resource or fails with NotFoundError on 404".\<close>
  "Manager_get p i c =
     (case http_request \<lparr>verb = GET, target = Member p i, params = Map.empty,
                         payload = Map.empty\<rparr> c of
        (r, c') \<Rightarrow>
          (case raise_for_status r of
             Inl e \<Rightarrow> (Inl e, c')
           | Inr r' \<Rightarrow> (resource_from r', c')))"

definition Manager_delete :: "string \<Rightarrow> int \<Rightarrow> HttpClient \<Rightarrow> (error + unit) \<times> HttpClient" where
  \<comment> \<open>Modelled from the spec: \<^verbatim>\<open>Manager._delete(path, resource_id)\<close> (missing with
      base.py): "DELETE; returns nothing".\<close>
  "Manager_delete p i c =
     (case http_request \<lparr>verb = DELETE, target = Member p i, params = Map.empty,
                         payload = Map.empty\<rparr> c of
        (r, c') \<Rightarrow>
          (case raise_for_status r of
             Inl e \<Rightarrow> (Inl e, c')
           | Inr r' \<Rightarrow> (Inr (), c')))"

definition Manager_count :: "string \<Rightarrow> HttpClient \<Rightarrow> (error + int) \<times> HttpClient" where
  \<comment> \<open>Modelled from the spec: \<^verbatim>\<open>Manager._count(path)\<close> (missing with base.py):
      "performs a list with minimal page size and reads meta.pagination.total,
      discarding rows".\<close>
  "Manager_count p c =
     (case http_request \<lparr>verb = GET, target = Collection p,
                         params = [''per_page'' \<mapsto> PInt 1], payload = Map.empty\<rparr> c of
        (r, c') \<Rightarrow>
          (case raise_for_status r of
             Inl e \<Rightarrow> (Inl e, c')
           | Inr r' \<Rightarrow>
               (case json r' of
                  DataPage rows pg \<Rightarrow> (Inr (total pg), c')
                | _ \<Rightarrow> (Inl (KeyError ''meta''), c'))))"

text \<open>
  The generator of \<^verbatim>\<open>_list_paginated\<close>, drained: \<open>acc\<close> holds the resources
  yielded so far. A service that never reports its last page keeps the loop running;
  the result is then \<open>None\<close>.
\<close>

partial_function (option) Manager_list_paginated ::
  "string \<Rightarrow> int \<Rightarrow> int \<Rightarrow> Incident list \<Rightarrow> HttpClient \<Rightarrow> ((error + Incident list) \<times> HttpClient) option" where
  \<comment> \<open>Modelled from the spec: \<^verbatim>\<open>Manager._list_paginated(path, page, per_page)\<close>
      (missing with base.py): it "fetches one page at a time, advancing page until
      current_page == total_pages", "emitting each page's data entries before
      requesting the next page".\<close>
  "Manager_list_paginated p page per_pg acc c =
     (case http_request \<lparr>verb = GET, target = Collection p,
                         params = [''page'' \<mapsto> PInt page, ''per_page'' \<mapsto> PInt per_pg],
                         payload = Map.empty\<rparr> c of
        (r, c') \<Rightarrow>
          (case raise_for_status r of
             Inl e \<Rightarrow> Some (Inl e, c')
           | Inr r' \<Rightarrow>
               (case json r' of
                  DataPage rows pg \<Rightarrow>
                    (if current_page pg = total_pages pg
                     then Some (Inr (acc @ map (\<lambda>d. \<lparr>data = d\<rparr>) rows), c')
                     else Manager_list_paginated p (page + 1) per_pg
                            (acc @ map (\<lambda>d. \<lparr>data = d\<rparr>) rows) c')
                | _ \<Rightarrow> Some (Inl (KeyError ''meta''), c'))))"

declare Manager_list_paginated.simps [code]

section \<open>IncidentManager\<close>

text \<open>
  The keyword arguments of \<^verbatim>\<open>create\<close> and \<^verbatim>\<open>update\<close>, one field per
  parameter. A parameter the caller leaves out has its default.
\<close>

record incident_kwargs =
  name :: pyval
  message :: pyval
  status :: pyval
  visible :: pyval
  component_id :: pyval
  component_status :: pyval
  notify :: pyval
  created_at :: pyval
  template :: pyval
  template_vars :: pyval

definition create_defaults :: "pyval \<Rightarrow> pyval \<Rightarrow> pyval \<Rightarrow> incident_kwargs" where
  \<comment> \<open>\<^verbatim>\<open>create(*, name, message, status, visible=True, component_id=None,
      component_status=None, notify=True, created_at=None, template=None,
      template_vars=None)\<close>\<close>
  "create_defaults n m s =
     \<lparr>name = n, message = m, status = s, visible = PBool True, component_id = PNone,
      component_status = PNone, notify = PBool True, created_at = PNone, template = PNone,
      template_vars = PNone\<rparr>"

definition update_defaults :: incident_kwargs where
  \<comment> \<open>\<^verbatim>\<open>update(incident_id, name=None, message=None, status=None, visible=None,
      component_id=None, component_status=None, notify=True, created_at=None,
      template=None, template_vars=None, **kwargs)\<close>\<close>
  "update_defaults =
     \<lparr>name = PNone, message = PNone, status = PNone, visible = PNone, component_id = PNone,
      component_status = PNone, notify = PBool True, created_at = PNone, template = PNone,
      template_vars = PNone\<rparr>"

definition IncidentManager_path :: string where
  "IncidentManager_path = ''incidents''"

definition create_data :: "incident_kwargs \<Rightarrow> pydict" where
  \<comment> \<open>the dict literal that \<^verbatim>\<open>create\<close> hands to \<^verbatim>\<open>_create\<close>\<close>
  "create_data a =
     [''name'' \<mapsto> name a,
      ''message'' \<mapsto> message a,
      ''status'' \<mapsto> status a,
      ''visible'' \<mapsto> PInt (if py_truth (visible a) then 1 else 0),
      ''component_id'' \<mapsto> component_id a,
      ''component_status'' \<mapsto> component_status a,
      ''notify'' \<mapsto> PInt (if py_truth (notify a) then 1 else 0),
      ''created_at'' \<mapsto> created_at a,
      ''template'' \<mapsto> template a,
      ''vars'' \<mapsto> template_vars a]"

definition IncidentManager_create :: "incident_kwargs \<Rightarrow> HttpClient \<Rightarrow> (error + Incident) \<times> HttpClient" where
  "IncidentManager_create a c = Manager_create IncidentManager_path (create_data a) c"

definition update_kwargs :: "incident_kwargs \<Rightarrow> pydict" where
  \<comment> \<open>the keyword arguments that \<^verbatim>\<open>update\<close> hands to \<^verbatim>\<open>_build_data_dict\<close>\<close>
  "update_kwargs a =
     [''name'' \<mapsto> name a,
      ''message'' \<mapsto> message a,
      ''status'' \<mapsto> status a,
      ''visible'' \<mapsto> PInt (if py_truth (visible a) then 1 else 0),
      ''component_id'' \<mapsto> component_id a,
      ''component_status'' \<mapsto> component_status a,
      ''notify'' \<mapsto> PInt (if py_truth (notify a) then 1 else 0),
      ''created_at'' \<mapsto> created_at a,
      ''template'' \<mapsto> template a,
      ''vars'' \<mapsto> template_vars a]"

definition IncidentManager_update :: "int \<Rightarrow> incident_kwargs \<Rightarrow> HttpClient \<Rightarrow> (error + Incident) \<times> HttpClient" where
  "IncidentManager_update incident_id a c =
     (if name a = PNone \<or> message a = PNone \<or> status a = PNone \<or> visible a = PNone
      then (Inl (ValueError ''name, message, status and visible are required parameters''), c)
      else Manager_update IncidentManager_path incident_id
             (Manager_build_data_dict (update_kwargs a)) c)"

definition IncidentManager_list :: "int \<Rightarrow> int \<Rightarrow> HttpClient \<Rightarrow> ((error + Incident list) \<times> HttpClient) option" where
  \<comment> \<open>\<^verbatim>\<open>list(page=1, per_page=1)\<close>; the value is the generator drained to its end.\<close>
  "IncidentManager_list page per_pg c =
     Manager_list_paginated IncidentManager_path page per_pg [] c"

definition IncidentManager_get :: "int \<Rightarrow> HttpClient \<Rightarrow> (error + Incident) \<times> HttpClient" where
  "IncidentManager_get incident_id c = Manager_get IncidentManager_path incident_id c"

definition IncidentManager_count :: "HttpClient \<Rightarrow> (error + int) \<times> HttpClient" where
  "IncidentManager_count c = Manager_count IncidentManager_path c"

definition IncidentManager_delete :: "int \<Rightarrow> HttpClient \<Rightarrow> (error + unit) \<times> HttpClient" where
  "IncidentManager_delete incident_id c = Manager_delete IncidentManager_path incident_id c"

section \<open>A service with a fixed collection\<close>

text \<open>
  The remote service is not part of the client. To relate \<^verbatim>\<open>count()\<close> and
  \<^verbatim>\<open>list()\<close> "for a fixed server state" one needs a service whose state is fixed:
  \<open>paged_service rows\<close> holds the collection \<open>rows\<close> and answers every GET on a
  collection URL with the pagination envelope of the specification: the rows of the
  requested page, \<open>total\<close> the size of the collection, \<open>current_page\<close> the page
  asked for and \<open>total_pages\<close> the number of the last page (1 for an empty
  collection). Any other request is answered 404.
\<close>

definition paged_service :: "pydict list \<Rightarrow> request \<Rightarrow> response" where
  \<comment> \<open>Modelled from the spec: the pagination envelope and its invariant
      (\<^verbatim>\<open>meta.pagination.total\<close> is the size of the collection), as the remote service,
      which is outside the repository, serves it.\<close>
  "paged_service rows rq =
     (case (verb rq, target rq) of
        (GET, Collection p) \<Rightarrow>
          (let per_pg = (case params rq ''per_page'' of Some (PInt n) \<Rightarrow> n | _ \<Rightarrow> 20);
               page = (case params rq ''page'' of Some (PInt n) \<Rightarrow> n | _ \<Rightarrow> 1)
           in \<lparr>status_code = 200,
               json = DataPage (take (nat per_pg) (drop (nat ((page - 1) * per_pg)) rows))
                        \<lparr>total = int (length rows), per_page = per_pg, current_page = page,
                         total_pages = max 1 ((int (length rows) + per_pg - 1) div per_pg)\<rparr>\<rparr>)
      | _ \<Rightarrow> \<lparr>status_code = 404, json = OtherBody PNone\<rparr>)"

section \<open>Concrete inputs\<close>

definition not_found_service :: "request \<Rightarrow> response" where
  "not_found_service rq = \<lparr>status_code = 404, json = OtherBody PNone\<rparr>"

definition echo_service :: "request \<Rightarrow> response" where
  \<comment> \<open>answers 200 with the payload it was sent as the stored object\<close>
  "echo_service rq = \<lparr>status_code = 200, json = DataObject (payload rq)\<rparr>"

definition fresh_client :: "(request \<Rightarrow> response) \<Rightarrow> HttpClient" where
  "fresh_client service = \<lparr>respond = service, sent = []\<rparr>"

definition wire_incident :: Incident where
  \<comment> \<open>an incident as the wire delivers it, booleans as the integers 0/1\<close>
  "wire_incident =
     \<lparr>data = [''id'' \<mapsto> PInt 7, ''name'' \<mapsto> PStr ''Outage'', ''status'' \<mapsto> PInt 1,
              ''visible'' \<mapsto> PInt 1, ''notify'' \<mapsto> PInt 1]\<rparr>"

definition three_rows :: "pydict list" where
  "three_rows =
     [[''id'' \<mapsto> PInt 1, ''visible'' \<mapsto> PInt 1],
      [''id'' \<mapsto> PInt 2, ''visible'' \<mapsto> PInt 0],
      [''id'' \<mapsto> PInt 3, ''visible'' \<mapsto> PInt 1]]"

definition full_update :: incident_kwargs where
  \<comment> \<open>\<^verbatim>\<open>update(7, name='Outage', message='Fixed', status=4, visible=True)\<close>\<close>
  "full_update =
     update_defaults\<lparr>name := PStr ''Outage'', message := PStr ''Fixed'', status := PInt 4,
                     visible := PBool True\<rparr>"

section \<open>Basic facts\<close>

lemma non_null_Some: "d k = Some v \<Longrightarrow> non_null d k = (if v = PNone then None else Some v)"
  by (simp add: non_null_def)

lemma non_null_not_None: "non_null d k \<noteq> Some PNone"
  by (simp add: non_null_def split: option.splits)

lemma dom_non_null: "dom (non_null d) \<subseteq> dom d"
  by (auto simp: non_null_def split: option.splits if_splits)

lemma sent_Manager_update:
  "sent (snd (Manager_update p i d c)) =
     sent c @ [\<lparr>verb = PUT, target = Member p i, params = Map.empty, payload = d\<rparr>]"
  by (simp add: Manager_update_def http_request_def split: sum.splits)

lemma sent_Manager_create:
  "sent (snd (Manager_create p d c)) =
     sent c @ [\<lparr>verb = POST, target = Collection p, params = Map.empty, payload = non_null d\<rparr>]"
  by (simp add: Manager_create_def http_request_def split: sum.splits)

lemma update_kwargs_keys:
  "update_kwargs a ''name'' = Some (name a)"
  "update_kwargs a ''message'' = Some (message a)"
  "update_kwargs a ''status'' = Some (status a)"
  "update_kwargs a ''visible'' = Some (PInt (if py_truth (visible a) then 1 else 0))"
  "update_kwargs a ''component_id'' = Some (component_id a)"
  "update_kwargs a ''component_status'' = Some (component_status a)"
  "update_kwargs a ''notify'' = Some (PInt (if py_truth (notify a) then 1 else 0))"
  "update_kwargs a ''created_at'' = Some (created_at a)"
  "update_kwargs a ''template'' = Some (template a)"
  "update_kwargs a ''vars'' = Some (template_vars a)"
  by (simp_all add: update_kwargs_def)

lemma dom_update_kwargs:
  "dom (update_kwargs a) =
     {''vars'', ''template'', ''created_at'', ''notify'', ''component_status'',
      ''component_id'', ''visible'', ''status'', ''message'', ''name''}"
  unfolding update_kwargs_def by (simp only: dom_fun_upd dom_empty option.simps if_False)

lemma create_data_keys:
  "create_data a ''name'' = Some (name a)"
  "create_data a ''message'' = Some (message a)"
  "create_data a ''status'' = Some (status a)"
  "create_data a ''visible'' = Some (PInt (if py_truth (visible a) then 1 else 0))"
  "create_data a ''component_id'' = Some (component_id a)"
  "create_data a ''component_status'' = Some (component_status a)"
  "create_data a ''notify'' = Some (PInt (if py_truth (notify a) then 1 else 0))"
  "create_data a ''created_at'' = Some (created_at a)"
  "create_data a ''template'' = Some (template a)"
  "create_data a ''vars'' = Some (template_vars a)"
  by (simp_all add: create_data_def)

lemma sent_Manager_get:
  "sent (snd (Manager_get p i c)) =
     sent c @ [\<lparr>verb = GET, target = Member p i, params = Map.empty, payload = Map.empty\<rparr>]"
  by (simp add: Manager_get_def http_request_def split: sum.splits)

lemma update_passes_validation:
  "name a \<noteq> PNone \<Longrightarrow> message a \<noteq> PNone \<Longrightarrow> status a \<noteq> PNone \<Longrightarrow> visible a \<noteq> PNone \<Longrightarrow>
   IncidentManager_update i a c = Manager_update ''incidents'' i (non_null (update_kwargs a)) c"
  by (simp add: IncidentManager_update_def IncidentManager_path_def Manager_build_data_dict_def)

lemma non_null_update_kwargs:
  "non_null (update_kwargs a) ''name'' = (if name a = PNone then None else Some (name a))"
  "non_null (update_kwargs a) ''message'' = (if message a = PNone then None else Some (message a))"
  "non_null (update_kwargs a) ''status'' = (if status a = PNone then None else Some (status a))"
  "non_null (update_kwargs a) ''visible'' = Some (PInt (if py_truth (visible a) then 1 else 0))"
  "non_null (update_kwargs a) ''component_id'' =
     (if component_id a = PNone then None else Some (component_id a))"
  "non_null (update_kwargs a) ''component_status'' =
     (if component_status a = PNone then None else Some (component_status a))"
  "non_null (update_kwargs a) ''notify'' = Some (PInt (if py_truth (notify a) then 1 else 0))"
  "non_null (update_kwargs a) ''created_at'' =
     (if created_at a = PNone then None else Some (created_at a))"
  "non_null (update_kwargs a) ''template'' = (if template a = PNone then None else Some (template a))"
  "non_null (update_kwargs a) ''vars'' =
     (if template_vars a = PNone then None else Some (template_vars a))"
  by (simp_all add: non_null_def update_kwargs_keys)

lemma non_null_create_data:
  "non_null (create_data a) ''name'' = (if name a = PNone then None else Some (name a))"
  "non_null (create_data a) ''message'' = (if message a = PNone then None else Some (message a))"
  "non_null (create_data a) ''status'' = (if status a = PNone then None else Some (status a))"
  "non_null (create_data a) ''visible'' = Some (PInt (if py_truth (visible a) then 1 else 0))"
  "non_null (create_data a) ''component_id'' =
     (if component_id a = PNone then None else Some (component_id a))"
  "non_null (create_data a) ''component_status'' =
     (if component_status a = PNone then None else Some (component_status a))"
  "non_null (create_data a) ''notify'' = Some (PInt (if py_truth (notify a) then 1 else 0))"
  "non_null (create_data a) ''created_at'' =
     (if created_at a = PNone then None else Some (created_at a))"
  "non_null (create_data a) ''template'' = (if template a = PNone then None else Some (template a))"
  "non_null (create_data a) ''vars'' =
     (if template_vars a = PNone then None else Some (template_vars a))"
  by (simp_all add: non_null_def create_data_keys)

lemma update_payload_keys:
  "dom (non_null (update_kwargs a)) \<subseteq>
     {''name'', ''message'', ''status'', ''visible'', ''component_id'',
      ''component_status'', ''notify'', ''created_at'', ''template'', ''vars''}"
proof -
  have "dom (non_null (update_kwargs a)) \<subseteq> dom (update_kwargs a)"
    by (rule dom_non_null)
  also have "\<dots> \<subseteq> {''name'', ''message'', ''status'', ''visible'', ''component_id'',
      ''component_status'', ''notify'', ''created_at'', ''template'', ''vars''}"
    unfolding dom_update_kwargs
    by (simp only: insert_subset insertI1 insert_iff simp_thms empty_subsetI)
  finally show ?thesis .
qed

subsection \<open>Paging through the fixed collection\<close>

lemma paged_service_page:
  "paged_service rows \<lparr>verb = GET, target = Collection p,
       params = [''page'' \<mapsto> PInt page, ''per_page'' \<mapsto> PInt pp], payload = Map.empty\<rparr> =
     \<lparr>status_code = 200,
      json = DataPage (take (nat pp) (drop (nat ((page - 1) * pp)) rows))
               \<lparr>total = int (length rows), per_page = pp, current_page = page,
                total_pages = max 1 ((int (length rows) + pp - 1) div pp)\<rparr>\<rparr>"
  by (simp add: paged_service_def)

lemma paged_service_count:
  "paged_service rows \<lparr>verb = GET, target = Collection p,
       params = [''per_page'' \<mapsto> PInt 1], payload = Map.empty\<rparr> =
     \<lparr>status_code = 200,
      json = DataPage (take 1 rows)
               \<lparr>total = int (length rows), per_page = 1, current_page = 1,
                total_pages = max 1 (int (length rows))\<rparr>\<rparr>"
  by (simp add: paged_service_def)

text \<open>One round of the loop: the last page ends it, any other page asks for the next.\<close>

lemma list_step:
  "Manager_list_paginated p page pp acc \<lparr>respond = paged_service rows, sent = log\<rparr> =
     (if page = max 1 ((int (length rows) + pp - 1) div pp)
      then Some (Inr (acc @ map (\<lambda>d. \<lparr>data = d\<rparr>)
                              (take (nat pp) (drop (nat ((page - 1) * pp)) rows))),
                 \<lparr>respond = paged_service rows,
                  sent = log @ [\<lparr>verb = GET, target = Collection p,
                                 params = [''page'' \<mapsto> PInt page, ''per_page'' \<mapsto> PInt pp],
                                 payload = Map.empty\<rparr>]\<rparr>)
      else Manager_list_paginated p (page + 1) pp
             (acc @ map (\<lambda>d. \<lparr>data = d\<rparr>) (take (nat pp) (drop (nat ((page - 1) * pp)) rows)))
             \<lparr>respond = paged_service rows,
              sent = log @ [\<lparr>verb = GET, target = Collection p,
                             params = [''page'' \<mapsto> PInt page, ''per_page'' \<mapsto> PInt pp],
                             payload = Map.empty\<rparr>]\<rparr>)"
  by (subst Manager_list_paginated.simps)
     (simp add: http_request_def paged_service_page raise_for_status_def)

text \<open>The pages up to the last one hold the whole collection.\<close>

lemma pages_cover:
  assumes "1 \<le> pp"
  shows "(n::int) \<le> max 1 ((n + pp - 1) div pp) * pp"
proof -
  have "(n + pp - 1) div pp * pp = (n + pp - 1) - (n + pp - 1) mod pp"
    by (simp add: minus_mod_eq_div_mult)
  moreover have "(n + pp - 1) mod pp < pp" using assms by simp
  ultimately have "n \<le> (n + pp - 1) div pp * pp" by linarith
  also have "\<dots> \<le> max 1 ((n + pp - 1) div pp) * pp"
    using assms by (simp add: mult_right_mono)
  finally show ?thesis .
qed

lemma take_drop_next: "take m (drop k xs) @ drop (k + m) xs = drop k xs"
  by (metis append_take_drop_id drop_drop add.commute)

text \<open>
  Started on any page up to the last, with any page size of at least 1, the loop ends
  and has yielded the rows from that page on, in the collection's order. Induction on
  the number of pages still to fetch.
\<close>

lemma list_from_page:
  "1 \<le> pp \<Longrightarrow> 1 \<le> page \<Longrightarrow> page \<le> max 1 ((int (length rows) + pp - 1) div pp) \<Longrightarrow>
   n = nat (max 1 ((int (length rows) + pp - 1) div pp) - page) \<Longrightarrow>
   \<exists>c'. Manager_list_paginated p page pp acc \<lparr>respond = paged_service rows, sent = log\<rparr> =
     Some (Inr (acc @ map (\<lambda>d. \<lparr>data = d\<rparr>) (drop (nat ((page - 1) * pp)) rows)), c')"
proof (induction n arbitrary: page acc log)
  case 0
  let ?T = "max 1 ((int (length rows) + pp - 1) div pp)"
  from 0 have last_page: "page = ?T" by simp
  have "int (length rows) \<le> ?T * pp" using pages_cover [OF 0(1)] .
  also have "\<dots> = (page - 1) * pp + pp"
    unfolding last_page by (simp add: algebra_simps)
  finally have "length rows \<le> nat ((page - 1) * pp) + nat pp"
    using 0(1,2) by (simp add: nat_add_distrib le_nat_iff)
  then have "take (nat pp) (drop (nat ((page - 1) * pp)) rows) =
      drop (nat ((page - 1) * pp)) rows"
    by simp
  then show ?case using last_page by (subst list_step) simp
next
  case (Suc n)
  let ?rq = "\<lparr>verb = GET, target = Collection p,
              params = [''page'' \<mapsto> PInt page, ''per_page'' \<mapsto> PInt pp],
              payload = Map.empty\<rparr>"
  let ?acc = "acc @ map (\<lambda>d. \<lparr>data = d\<rparr>)
                      (take (nat pp) (drop (nat ((page - 1) * pp)) rows))"
  from Suc.prems have more: "page \<noteq> max 1 ((int (length rows) + pp - 1) div pp)" by simp
  have nxt: "1 \<le> page + 1" "page + 1 \<le> max 1 ((int (length rows) + pp - 1) div pp)"
    "n = nat (max 1 ((int (length rows) + pp - 1) div pp) - (page + 1))"
    using Suc.prems by simp_all
  have nonneg: "0 \<le> (page - 1) * pp" "0 \<le> pp" using Suc.prems by simp_all
  have "(page + 1 - 1) * pp = (page - 1) * pp + pp" by (simp add: algebra_simps)
  then have idx: "nat ((page + 1 - 1) * pp) = nat ((page - 1) * pp) + nat pp"
    using nonneg by (simp only: nat_add_distrib)
  have step: "Manager_list_paginated p page pp acc \<lparr>respond = paged_service rows, sent = log\<rparr> =
      Manager_list_paginated p (page + 1) pp ?acc
        \<lparr>respond = paged_service rows, sent = log @ [?rq]\<rparr>"
    using more by (subst list_step) simp
  obtain c' where "Manager_list_paginated p (page + 1) pp ?acc
        \<lparr>respond = paged_service rows, sent = log @ [?rq]\<rparr> =
      Some (Inr (?acc @ map (\<lambda>d. \<lparr>data = d\<rparr>) (drop (nat ((page + 1 - 1) * pp)) rows)), c')"
    using Suc.IH [OF Suc.prems(1) nxt] by blast
  moreover have "?acc @ map (\<lambda>d. \<lparr>data = d\<rparr>) (drop (nat ((page + 1 - 1) * pp)) rows) =
      acc @ map (\<lambda>d. \<lparr>data = d\<rparr>) (drop (nat ((page - 1) * pp)) rows)"
    unfolding idx by (simp only: append_assoc flip: map_append add: take_drop_next)
  ultimately show ?case using step by simp
qed

lemma list_drains_collection:
  assumes "1 \<le> pp"
  shows "\<exists>c'. IncidentManager_list 1 pp \<lparr>respond = paged_service rows, sent = log\<rparr> =
           Some (Inr (map (\<lambda>d. \<lparr>data = d\<rparr>) rows), c')"
  using list_from_page [OF assms, of 1 rows _ IncidentManager_path "[]" log]
  by (simp add: IncidentManager_list_def)

lemma count_paged:
  "fst (Manager_count p \<lparr>respond = paged_service rows, sent = log\<rparr>) = Inr (int (length rows))"
  by (simp add: Manager_count_def http_request_def paged_service_count raise_for_status_def)

lemma full_update_valid:
  "name full_update \<noteq> PNone" "message full_update \<noteq> PNone"
  "status full_update \<noteq> PNone" "visible full_update \<noteq> PNone"
  by (simp_all add: full_update_def update_defaults_def)

lemma visible_getter_returns_bool: "isinstance_bool (Incident_visible self)"
  by (simp add: Incident_visible_def)

section \<open>The claims\<close>

subsection \<open>C1: update validates its required arguments before any request\<close>

text \<open>
  C1, as stated: a call of \<^verbatim>\<open>IncidentManager.update\<close> with one of \<^verbatim>\<open>name\<close>,
  \<^verbatim>\<open>message\<close>, \<^verbatim>\<open>status\<close>, \<^verbatim>\<open>visible\<close> absent raises \<open>ValidationError\<close>
  before any request. The exception the code raises is Python's \<open>ValueError\<close>:
  \<^verbatim>\<open>update(7)\<close> does not end in \<open>ValidationError\<close>.
\<close>

theorem update_raises_ValidationError_counterexample:
  "fst (IncidentManager_update 7 update_defaults (fresh_client not_found_service))
     \<noteq> Inl ValidationError"
  by (simp add: IncidentManager_update_def update_defaults_def)

text \<open>
  C1, amended: whenever one of the four required arguments is \<^verbatim>\<open>None\<close>, the call
  raises \<open>ValueError\<close> and hands the HTTP client back untouched, so no request was
  issued (the log \<open>sent\<close> is the one the call started with).
\<close>

theorem update_missing_required_raises_ValueError_before_any_request:
  assumes "name a = PNone \<or> message a = PNone \<or> status a = PNone \<or> visible a = PNone"
  shows "fst (IncidentManager_update incident_id a c) =
           Inl (ValueError ''name, message, status and visible are required parameters'')
         \<and> snd (IncidentManager_update incident_id a c) = c
         \<and> sent (snd (IncidentManager_update incident_id a c)) = sent c"
  using assms by (simp add: IncidentManager_update_def)

theorem update_missing_required_witness:
  "fst (IncidentManager_update 7 (full_update\<lparr>status := PNone\<rparr>) (fresh_client echo_service)) =
     Inl (ValueError ''name, message, status and visible are required parameters'')
   \<and> sent (snd (IncidentManager_update 7 (full_update\<lparr>status := PNone\<rparr>)
               (fresh_client echo_service))) = []"
proof -
  have missing: "name (full_update\<lparr>status := PNone\<rparr>) = PNone
      \<or> message (full_update\<lparr>status := PNone\<rparr>) = PNone
      \<or> status (full_update\<lparr>status := PNone\<rparr>) = PNone
      \<or> visible (full_update\<lparr>status := PNone\<rparr>) = PNone"
    by simp
  show ?thesis
    using update_missing_required_raises_ValueError_before_any_request
            [OF missing, of 7 "fresh_client echo_service"]
    by (simp add: fresh_client_def)
qed

subsection \<open>C2: booleans as 0/1 on the wire, as booleans on the surface\<close>

text \<open>
  C2 has two halves. Outbound, \<^verbatim>\<open>create\<close> and \<^verbatim>\<open>update\<close> put
  \<^verbatim>\<open>1 if visible else 0\<close> and \<^verbatim>\<open>1 if notify else 0\<close> in the payload (the facts
  \<open>non_null_create_data\<close> and \<open>non_null_update_kwargs\<close> above), and the
  \<^verbatim>\<open>visible\<close> getter always returns a boolean (\<open>visible_getter_returns_bool\<close>).
  Inbound, the \<^verbatim>\<open>notify\<close> getter, documented as \<^verbatim>\<open>bool\<close>, returns the stored
  value as it is: for an incident that came from the wire with \<^verbatim>\<open>notify\<close> encoded
  as the integer 1 it returns the integer 1, which is not a boolean, where the sibling
  getter \<^verbatim>\<open>visible\<close> converts.
\<close>

theorem notify_getter_returns_stored_integer:
  "Incident_notify wire_incident = PInt 1
   \<and> \<not> isinstance_bool (Incident_notify wire_incident)
   \<and> isinstance_bool (Incident_visible wire_incident)"
  by (simp add: Incident_notify_def Incident_visible_def Resource_get_def wire_incident_def)

subsection \<open>C3: what the visible getter makes of the stored value\<close>

text \<open>
  C3, as stated: \<^verbatim>\<open>Incident.visible\<close> maps the stored strings "0"/"1" to
  \<^verbatim>\<open>False\<close>/\<^verbatim>\<open>True\<close> and a stored null to \<^verbatim>\<open>None\<close>. The getter is
  \<^verbatim>\<open>self.get('visible') == 1\<close>: the string "1" does not read as \<^verbatim>\<open>True\<close>, and a
  null or absent value does not read as \<^verbatim>\<open>None\<close>.
\<close>

theorem visible_getter_string_and_null_counterexample:
  "Incident_visible \<lparr>data = [''visible'' \<mapsto> PStr ''1'']\<rparr> \<noteq> PBool True
   \<and> Incident_visible \<lparr>data = [''visible'' \<mapsto> PNone]\<rparr> \<noteq> PNone
   \<and> Incident_visible \<lparr>data = Map.empty\<rparr> \<noteq> PNone"
  by (simp add: Incident_visible_def Resource_get_def)

text \<open>
  C3, amended: \<^verbatim>\<open>Incident.visible\<close> returns a boolean whatever is stored; the
  stored strings "0" and "1" both read as \<^verbatim>\<open>False\<close>, and a stored null or an
  absent value reads as \<^verbatim>\<open>False\<close>, not as \<^verbatim>\<open>None\<close>.
\<close>

theorem visible_getter_strings_and_null_read_False:
  "isinstance_bool (Incident_visible self)
   \<and> (data self ''visible'' = Some (PStr ''0'') \<longrightarrow> Incident_visible self = PBool False)
   \<and> (data self ''visible'' = Some (PStr ''1'') \<longrightarrow> Incident_visible self = PBool False)
   \<and> (data self ''visible'' = Some PNone \<longrightarrow> Incident_visible self = PBool False)
   \<and> (data self ''visible'' = None \<longrightarrow> Incident_visible self = PBool False)"
  by (simp add: Incident_visible_def Resource_get_def)

theorem visible_getter_strings_and_null_witness:
  "Incident_visible \<lparr>data = [''visible'' \<mapsto> PStr ''1'']\<rparr> = PBool False
   \<and> Incident_visible \<lparr>data = [''visible'' \<mapsto> PStr ''0'']\<rparr> = PBool False
   \<and> Incident_visible \<lparr>data = [''visible'' \<mapsto> PNone]\<rparr> = PBool False
   \<and> Incident_visible \<lparr>data = Map.empty\<rparr> = PBool False"
proof -
  have one: "data \<lparr>data = [''visible'' \<mapsto> PStr ''1'']\<rparr> ''visible'' = Some (PStr ''1'')"
    and zero: "data \<lparr>data = [''visible'' \<mapsto> PStr ''0'']\<rparr> ''visible'' = Some (PStr ''0'')"
    and null: "data \<lparr>data = [''visible'' \<mapsto> PNone]\<rparr> ''visible'' = Some PNone"
    and absent: "data \<lparr>data = Map.empty\<rparr> ''visible'' = None"
    by simp_all
  from visible_getter_strings_and_null_read_False
         [of "\<lparr>data = [''visible'' \<mapsto> PStr ''1'']\<rparr>"] one
  have r1: "Incident_visible \<lparr>data = [''visible'' \<mapsto> PStr ''1'']\<rparr> = PBool False"
    by blast
  from visible_getter_strings_and_null_read_False
         [of "\<lparr>data = [''visible'' \<mapsto> PStr ''0'']\<rparr>"] zero
  have r2: "Incident_visible \<lparr>data = [''visible'' \<mapsto> PStr ''0'']\<rparr> = PBool False"
    by blast
  from visible_getter_strings_and_null_read_False
         [of "\<lparr>data = [''visible'' \<mapsto> PNone]\<rparr>"] null
  have r3: "Incident_visible \<lparr>data = [''visible'' \<mapsto> PNone]\<rparr> = PBool False"
    by blast
  from visible_getter_strings_and_null_read_False [of "\<lparr>data = Map.empty\<rparr>"] absent
  have r4: "Incident_visible \<lparr>data = Map.empty\<rparr> = PBool False"
    by blast
  from r1 r2 r3 r4 show ?thesis by simp
qed

subsection \<open>C4: create posts non-null fields only\<close>

text \<open>
  C4: every call of \<^verbatim>\<open>IncidentManager.create\<close> issues one request, a POST to the
  resource path \<^verbatim>\<open>incidents\<close>, whose body holds no key with the value \<^verbatim>\<open>None\<close>:
  each of \<^verbatim>\<open>component_id\<close>, \<^verbatim>\<open>component_status\<close>, \<^verbatim>\<open>created_at\<close>,
  \<^verbatim>\<open>template\<close>, \<^verbatim>\<open>vars\<close> is left out when its argument is \<^verbatim>\<open>None\<close> and sent
  with its value otherwise.
\<close>

theorem create_posts_non_null_fields_only:
  "\<exists>rq. sent (snd (IncidentManager_create a c)) = sent c @ [rq]
      \<and> verb rq = POST \<and> target rq = Collection ''incidents''
      \<and> (\<forall>k. payload rq k \<noteq> Some PNone)
      \<and> payload rq ''component_id'' =
           (if component_id a = PNone then None else Some (component_id a))
      \<and> payload rq ''component_status'' =
           (if component_status a = PNone then None else Some (component_status a))
      \<and> payload rq ''created_at'' =
           (if created_at a = PNone then None else Some (created_at a))
      \<and> payload rq ''template'' = (if template a = PNone then None else Some (template a))
      \<and> payload rq ''vars'' =
           (if template_vars a = PNone then None else Some (template_vars a))"
  unfolding IncidentManager_create_def IncidentManager_path_def sent_Manager_create
  apply (rule exI [of _ "\<lparr>verb = POST, target = Collection ''incidents'', params = Map.empty,
                          payload = non_null (create_data a)\<rparr>"])
  apply (simp only: request.simps non_null_create_data non_null_not_None simp_thms
           not_False_eq_True)
  done

theorem create_posts_non_null_fields_witness:
  "\<exists>rq. sent (snd (IncidentManager_create
                     (create_defaults (PStr ''Outage'') (PStr ''Investigating'') (PInt 1))
                     (fresh_client echo_service))) = [rq]
      \<and> verb rq = POST \<and> target rq = Collection ''incidents''
      \<and> payload rq ''component_id'' = None
      \<and> payload rq ''template'' = None
      \<and> payload rq ''vars'' = None"
proof -
  let ?a = "create_defaults (PStr ''Outage'') (PStr ''Investigating'') (PInt 1)"
  have args: "component_id ?a = PNone" "template ?a = PNone" "template_vars ?a = PNone"
    by (simp_all add: create_defaults_def)
  have log: "sent (fresh_client echo_service) = []"
    by (simp add: fresh_client_def)
  obtain rq where
    "sent (snd (IncidentManager_create ?a (fresh_client echo_service))) =
       sent (fresh_client echo_service) @ [rq]"
    "verb rq = POST" "target rq = Collection ''incidents''"
    "payload rq ''component_id'' =
       (if component_id ?a = PNone then None else Some (component_id ?a))"
    "payload rq ''template'' = (if template ?a = PNone then None else Some (template ?a))"
    "payload rq ''vars'' = (if template_vars ?a = PNone then None else Some (template_vars ?a))"
    using create_posts_non_null_fields_only [of ?a "fresh_client echo_service"] by blast
  then show ?thesis
    unfolding args log by (intro exI [of _ rq]) simp
qed

subsection \<open>C5: update puts a partial payload\<close>

text \<open>
  C5: a call of \<^verbatim>\<open>IncidentManager.update\<close> that passes the validation issues one
  request, a PUT to \<^verbatim>\<open>incidents/{id}\<close>. Each optional field (\<^verbatim>\<open>component_id\<close>,
  \<^verbatim>\<open>component_status\<close>, \<^verbatim>\<open>created_at\<close>, \<^verbatim>\<open>template\<close>, \<^verbatim>\<open>vars\<close>) is left
  out of the body when its argument is \<^verbatim>\<open>None\<close> and sent with its value otherwise;
  the required fields and \<^verbatim>\<open>notify\<close> are sent; no other key is.
\<close>

theorem update_puts_partial_payload:
  assumes "name a \<noteq> PNone" "message a \<noteq> PNone" "status a \<noteq> PNone" "visible a \<noteq> PNone"
  shows "\<exists>rq. sent (snd (IncidentManager_update incident_id a c)) = sent c @ [rq]
           \<and> verb rq = PUT \<and> target rq = Member ''incidents'' incident_id
           \<and> payload rq ''component_id'' =
                (if component_id a = PNone then None else Some (component_id a))
           \<and> payload rq ''component_status'' =
                (if component_status a = PNone then None else Some (component_status a))
           \<and> payload rq ''created_at'' =
                (if created_at a = PNone then None else Some (created_at a))
           \<and> payload rq ''template'' = (if template a = PNone then None else Some (template a))
           \<and> payload rq ''vars'' =
                (if template_vars a = PNone then None else Some (template_vars a))
           \<and> payload rq ''name'' = Some (name a)
           \<and> payload rq ''message'' = Some (message a)
           \<and> payload rq ''status'' = Some (status a)
           \<and> payload rq ''visible'' = Some (PInt (if py_truth (visible a) then 1 else 0))
           \<and> payload rq ''notify'' = Some (PInt (if py_truth (notify a) then 1 else 0))
           \<and> dom (payload rq) \<subseteq>
                {''name'', ''message'', ''status'', ''visible'', ''component_id'',
                 ''component_status'', ''notify'', ''created_at'', ''template'', ''vars''}"
proof -
  let ?d = "non_null (update_kwargs a)"
  have required: "?d ''name'' = Some (name a)" "?d ''message'' = Some (message a)"
    "?d ''status'' = Some (status a)"
    using assms by (simp_all only: non_null_update_kwargs if_False)
  show ?thesis
    unfolding update_passes_validation [OF assms] sent_Manager_update
    apply (rule exI [of _ "\<lparr>verb = PUT, target = Member ''incidents'' incident_id,
                            params = Map.empty, payload = ?d\<rparr>"])
    apply (simp only: request.simps required non_null_update_kwargs(4-10) update_payload_keys
             simp_thms)
    done
qed

theorem update_puts_partial_payload_witness:
  "\<exists>rq. sent (snd (IncidentManager_update 7 (full_update\<lparr>template := PStr ''maintenance''\<rparr>)
                     (fresh_client echo_service))) = [rq]
      \<and> verb rq = PUT \<and> target rq = Member ''incidents'' 7
      \<and> payload rq ''template'' = Some (PStr ''maintenance'')
      \<and> payload rq ''component_id'' = None
      \<and> payload rq ''vars'' = None
      \<and> payload rq ''name'' = Some (PStr ''Outage'')"
proof -
  let ?a = "full_update\<lparr>template := PStr ''maintenance''\<rparr>"
  have valid: "name ?a \<noteq> PNone" "message ?a \<noteq> PNone" "status ?a \<noteq> PNone"
    "visible ?a \<noteq> PNone"
    using full_update_valid by simp_all
  have args: "template ?a = PStr ''maintenance''" "component_id ?a = PNone"
    "template_vars ?a = PNone" "name ?a = PStr ''Outage''"
    by (simp_all add: full_update_def update_defaults_def)
  have log: "sent (fresh_client echo_service) = []"
    by (simp add: fresh_client_def)
  obtain rq where
    "sent (snd (IncidentManager_update 7 ?a (fresh_client echo_service))) =
       sent (fresh_client echo_service) @ [rq]"
    "verb rq = PUT" "target rq = Member ''incidents'' 7"
    "payload rq ''template'' = (if template ?a = PNone then None else Some (template ?a))"
    "payload rq ''component_id'' =
       (if component_id ?a = PNone then None else Some (component_id ?a))"
    "payload rq ''vars'' = (if template_vars ?a = PNone then None else Some (template_vars ?a))"
    "payload rq ''name'' = Some (name ?a)"
    using update_puts_partial_payload [OF valid, of 7 "fresh_client echo_service"] by blast
  then show ?thesis
    unfolding args log by (intro exI [of _ rq]) simp
qed

subsection \<open>C6: get fetches one incident or fails with NotFoundError\<close>

text \<open>
  C6: \<^verbatim>\<open>IncidentManager.get(incident_id)\<close> issues one request, a GET on
  \<^verbatim>\<open>incidents/{id}\<close>. When the service answers 404 the call fails with
  \<open>NotFoundError\<close>; when it answers 2xx with an object under \<^verbatim>\<open>data\<close> the call
  returns the incident built from that object.
\<close>

theorem get_fetches_member_and_maps_404:
  "sent (snd (IncidentManager_get incident_id c)) =
     sent c @ [\<lparr>verb = GET, target = Member ''incidents'' incident_id, params = Map.empty,
                 payload = Map.empty\<rparr>]
   \<and> (status_code (respond c \<lparr>verb = GET, target = Member ''incidents'' incident_id,
                              params = Map.empty, payload = Map.empty\<rparr>) = 404
        \<longrightarrow> fst (IncidentManager_get incident_id c) = Inl NotFoundError)
   \<and> (\<forall>s d. respond c \<lparr>verb = GET, target = Member ''incidents'' incident_id,
                        params = Map.empty, payload = Map.empty\<rparr>
               = \<lparr>status_code = s, json = DataObject d\<rparr> \<and> 200 \<le> s \<and> s < 300
        \<longrightarrow> fst (IncidentManager_get incident_id c) = Inr \<lparr>data = d\<rparr>)"
  by (simp add: IncidentManager_get_def IncidentManager_path_def Manager_get_def http_request_def
        raise_for_status_def resource_from_def)

theorem get_fetches_member_witness:
  "fst (IncidentManager_get 7 (fresh_client not_found_service)) = Inl NotFoundError
   \<and> sent (snd (IncidentManager_get 7 (fresh_client not_found_service))) =
       [\<lparr>verb = GET, target = Member ''incidents'' 7, params = Map.empty, payload = Map.empty\<rparr>]
   \<and> fst (IncidentManager_get 7 (fresh_client echo_service)) = Inr \<lparr>data = Map.empty\<rparr>"
proof -
  have nf: "status_code (respond (fresh_client not_found_service)
               \<lparr>verb = GET, target = Member ''incidents'' 7, params = Map.empty,
                payload = Map.empty\<rparr>) = 404"
    by (simp add: fresh_client_def not_found_service_def)
  have ok: "respond (fresh_client echo_service)
               \<lparr>verb = GET, target = Member ''incidents'' 7, params = Map.empty,
                payload = Map.empty\<rparr> = \<lparr>status_code = 200, json = DataObject Map.empty\<rparr>
            \<and> (200::nat) \<le> 200 \<and> (200::nat) < 300"
    by (simp add: fresh_client_def echo_service_def)
  have log: "sent (fresh_client not_found_service) = []"
    by (simp add: fresh_client_def)
  note at_404 = get_fetches_member_and_maps_404 [of 7 "fresh_client not_found_service"]
  note at_200 = get_fetches_member_and_maps_404 [of 7 "fresh_client echo_service"]
  from at_404 nf
  have r1: "fst (IncidentManager_get 7 (fresh_client not_found_service)) = Inl NotFoundError"
    by blast
  from at_404 log
  have r2: "sent (snd (IncidentManager_get 7 (fresh_client not_found_service))) =
       [\<lparr>verb = GET, target = Member ''incidents'' 7, params = Map.empty, payload = Map.empty\<rparr>]"
    by simp
  from at_200 ok
  have r3: "fst (IncidentManager_get 7 (fresh_client echo_service)) = Inr \<lparr>data = Map.empty\<rparr>"
    by blast
  from r1 r2 r3 show ?thesis by simp
qed

subsection \<open>C7: setters stage a change locally\<close>

text \<open>
  C7: each property setter of \<^verbatim>\<open>Incident\<close> (\<^verbatim>\<open>component_id\<close>, \<^verbatim>\<open>name\<close>,
  \<^verbatim>\<open>message\<close>, \<^verbatim>\<open>notify\<close>, \<^verbatim>\<open>status\<close>, \<^verbatim>\<open>visible\<close>) writes its own key of
  the resource's mapping, leaves every other stored field as it was, and leaves the
  HTTP client as it was: no request is issued.
\<close>

theorem setters_write_one_key_and_send_nothing:
  "(snd (Incident_set_component_id v self c) = c
      \<and> data (fst (Incident_set_component_id v self c)) ''component_id'' = Some v
      \<and> (\<forall>k. k \<noteq> ''component_id'' \<longrightarrow>
            data (fst (Incident_set_component_id v self c)) k = data self k))
   \<and> (snd (Incident_set_name v self c) = c
      \<and> data (fst (Incident_set_name v self c)) ''name'' = Some v
      \<and> (\<forall>k. k \<noteq> ''name'' \<longrightarrow> data (fst (Incident_set_name v self c)) k = data self k))
   \<and> (snd (Incident_set_message v self c) = c
      \<and> data (fst (Incident_set_message v self c)) ''message'' = Some v
      \<and> (\<forall>k. k \<noteq> ''message'' \<longrightarrow>
            data (fst (Incident_set_message v self c)) k = data self k))
   \<and> (snd (Incident_set_notify v self c) = c
      \<and> data (fst (Incident_set_notify v self c)) ''notify'' = Some v
      \<and> (\<forall>k. k \<noteq> ''notify'' \<longrightarrow> data (fst (Incident_set_notify v self c)) k = data self k))
   \<and> (snd (Incident_set_status v self c) = c
      \<and> data (fst (Incident_set_status v self c)) ''status'' = Some v
      \<and> (\<forall>k. k \<noteq> ''status'' \<longrightarrow> data (fst (Incident_set_status v self c)) k = data self k))
   \<and> (snd (Incident_set_visible v self c) = c
      \<and> data (fst (Incident_set_visible v self c)) ''visible'' = Some v
      \<and> (\<forall>k. k \<noteq> ''visible'' \<longrightarrow>
            data (fst (Incident_set_visible v self c)) k = data self k))"
  by (simp add: Incident_set_component_id_def Incident_set_name_def Incident_set_message_def
        Incident_set_notify_def Incident_set_status_def Incident_set_visible_def)

theorem setters_write_one_key_witness:
  "data (fst (Incident_set_name (PStr ''Resolved'') wire_incident (fresh_client echo_service)))
      ''name'' = Some (PStr ''Resolved'')
   \<and> data (fst (Incident_set_name (PStr ''Resolved'') wire_incident (fresh_client echo_service)))
      ''status'' = Some (PInt 1)
   \<and> sent (snd (Incident_set_name (PStr ''Resolved'') wire_incident (fresh_client echo_service)))
      = []"
proof -
  have other: "''status'' \<noteq> ''name''" by simp
  have kept: "data wire_incident ''status'' = Some (PInt 1)"
    by (simp add: wire_incident_def)
  have empty_log: "sent (fresh_client echo_service) = []"
    by (simp add: fresh_client_def)
  show ?thesis
    using setters_write_one_key_and_send_nothing
            [of "PStr ''Resolved''" wire_incident "fresh_client echo_service"]
          other kept empty_log
    by simp
qed

subsection \<open>C8: count and the drained list agree\<close>

text \<open>
  C8: against a service whose collection is fixed, the generator of
  \<^verbatim>\<open>IncidentManager.list()\<close> (its defaults: \<^verbatim>\<open>page=1\<close>, \<^verbatim>\<open>per_page=1\<close>) can be
  drained: the loop ends, having yielded one incident per stored row, in order; and
  \<^verbatim>\<open>IncidentManager.count()\<close> returns the number of incidents so obtained.
\<close>

theorem count_equals_length_of_drained_list:
  "\<exists>incidents c1.
     IncidentManager_list 1 1 \<lparr>respond = paged_service rows, sent = log\<rparr> =
       Some (Inr incidents, c1)
     \<and> incidents = map (\<lambda>d. \<lparr>data = d\<rparr>) rows
     \<and> fst (IncidentManager_count \<lparr>respond = paged_service rows, sent = log\<rparr>) =
         Inr (int (length incidents))"
proof -
  obtain c' where "IncidentManager_list 1 1 \<lparr>respond = paged_service rows, sent = log\<rparr> =
      Some (Inr (map (\<lambda>d. \<lparr>data = d\<rparr>) rows), c')"
    using list_drains_collection [of 1 rows log] by auto
  then show ?thesis
    by (simp add: IncidentManager_count_def count_paged)
qed

theorem count_equals_length_witness:
  "\<exists>incidents c1.
     IncidentManager_list 1 1 (fresh_client (paged_service three_rows)) = Some (Inr incidents, c1)
     \<and> length incidents = 3
     \<and> fst (IncidentManager_count (fresh_client (paged_service three_rows))) = Inr 3"
proof -
  obtain incidents c1 where
    "IncidentManager_list 1 1 \<lparr>respond = paged_service three_rows, sent = []\<rparr> =
       Some (Inr incidents, c1)"
    "incidents = map (\<lambda>d. \<lparr>data = d\<rparr>) three_rows"
    "fst (IncidentManager_count \<lparr>respond = paged_service three_rows, sent = []\<rparr>) =
       Inr (int (length incidents))"
    using count_equals_length_of_drained_list [of three_rows "[]"] by blast
  moreover have "length three_rows = 3"
    by (simp add: three_rows_def)
  ultimately show ?thesis
    unfolding fresh_client_def by (intro exI [of _ incidents] exI [of _ c1]) simp
qed

subsection \<open>C9: every update carries notify\<close>

text \<open>
  C9: a call of \<^verbatim>\<open>IncidentManager.update\<close> that passes the validation sends a
  payload that holds \<^verbatim>\<open>notify\<close>, with the value 1 or 0: the argument is turned into
  \<^verbatim>\<open>1 if notify else 0\<close>, which is never \<^verbatim>\<open>None\<close>, so the field is never dropped.
  With the default \<^verbatim>\<open>notify=True\<close> the value sent is 1.
\<close>

theorem update_payload_always_carries_notify:
  assumes "name a \<noteq> PNone" "message a \<noteq> PNone" "status a \<noteq> PNone" "visible a \<noteq> PNone"
  shows "\<exists>rq. sent (snd (IncidentManager_update incident_id a c)) = sent c @ [rq]
           \<and> verb rq = PUT \<and> target rq = Member ''incidents'' incident_id
           \<and> payload rq ''notify'' = Some (PInt (if py_truth (notify a) then 1 else 0))
           \<and> (payload rq ''notify'' = Some (PInt 1) \<or> payload rq ''notify'' = Some (PInt 0))"
  by (simp add: update_passes_validation [OF assms] sent_Manager_update non_null_update_kwargs)

theorem update_payload_notify_witness:
  "\<exists>rq. sent (snd (IncidentManager_update 7 full_update (fresh_client echo_service))) = [rq]
      \<and> verb rq = PUT \<and> target rq = Member ''incidents'' 7
      \<and> payload rq ''notify'' = Some (PInt 1)"
proof -
  have default_notify: "notify full_update = PBool True"
    by (simp add: full_update_def update_defaults_def)
  show ?thesis
    using update_payload_always_carries_notify
            [OF full_update_valid, of 7 "fresh_client echo_service"]
    by (auto simp: default_notify fresh_client_def)
qed

subsection \<open>C10: visible, set and read back\<close>

text \<open>
  C10: for every boolean \<open>b\<close>, assigning \<^verbatim>\<open>incident.visible = b\<close> and reading
  \<^verbatim>\<open>incident.visible\<close> gives \<open>b\<close> back: the setter stores the boolean itself and
  the getter compares it with the integer 1, which \<^verbatim>\<open>True\<close> equals and \<^verbatim>\<open>False\<close>
  does not.
\<close>

theorem visible_set_then_get:
  "Incident_visible (fst (Incident_set_visible (PBool b) self c)) = PBool b"
  by (simp add: Incident_visible_def Incident_set_visible_def Resource_get_def)

end
